theory Spec2Isabelle
  imports Main "HOL-Library.Log_Nat" "HOL-Library.Word"
begin

section \<open>JavaScript values, strings and errors\<close>

text \<open>
  The three agents of the repository are JavaScript classes. Their arguments are untyped,
  so the values they receive are modelled by \<open>jsval\<close>: \<open>undefined\<close>, \<open>null\<close>, booleans,
  numbers, strings and plain objects.  A number of \<open>jsval\<close> is a 32-bit signed integer, which
  a template literal prints in decimal.  An object is the list of its own enumerable
  string-keyed properties, in the order \<open>Object.entries\<close> yields them; its prototype is
  \<open>Object.prototype\<close> and its property values are again of \<open>jsval\<close>, so none of them is a
  function.  A string is a list of code units below 256.
\<close>

datatype jsval =
    JUndefined
  | JNull
  | JBool bool
  | JNum "32 word"
  | JStr string
  | JObj "(string \<times> jsval) list"

text \<open>
  Exceptions are values.  \<open>Error msg\<close> is \<open>new Error(msg)\<close> as thrown by the source;
  \<open>TypeError msg\<close> is the engine's TypeError with its message; \<open>FsError p\<close> is a failed
  write to path \<open>p\<close>.
\<close>

datatype error = Error string | TypeError string | FsError string

definition sq :: string where
  "sq = [CHR 0x27]"

definition digit_char :: "nat \<Rightarrow> char" where
  "digit_char d = ''0123456789'' ! d"

function showNat :: "nat \<Rightarrow> string" where
  "showNat n = (if n < 10 then [digit_char n] else showNat (n div 10) @ [digit_char (n mod 10)])"
  by pat_completeness auto
termination
  by (relation "measure id") auto

declare showNat.simps [simp del]

definition showInt :: "int \<Rightarrow> string" where
  "showInt i = (if i < 0 then CHR ''-'' # showNat (nat (- i)) else showNat (nat i))"

text \<open>
  The conversion to a string that a template literal \<^verbatim>\<open>${v}\<close> applies.  For an object it
  looks up \<open>toString\<close>: the inherited one prints \<open>[object Object]\<close>; an own property of
  that name is not callable, the inherited \<open>valueOf\<close> returns the object itself, and the
  conversion throws.
\<close>

definition conversionMessage :: string where
  "conversionMessage = ''Cannot convert object to primitive value''"

fun toString :: "jsval \<Rightarrow> error + string" where
  "toString JUndefined = Inr ''undefined''"
| "toString JNull = Inr ''null''"
| "toString (JBool b) = Inr (if b then ''true'' else ''false'')"
| "toString (JNum n) = Inr (showInt (sint n))"
| "toString (JStr s) = Inr s"
| "toString (JObj ps) =
     (if ''toString'' \<in> fst ` set ps then Inl (TypeError conversionMessage)
      else Inr ''[object Object]'')"

text \<open>
  A template literal is its literal pieces and its substitutions, converted from left to
  right; the first conversion that throws ends the evaluation.
\<close>

datatype part = Lit string | Sub jsval

fun template :: "part list \<Rightarrow> error + string" where
  "template [] = Inr []"
| "template (Lit s # ps) =
     (case template ps of Inl e \<Rightarrow> Inl e | Inr r \<Rightarrow> Inr (s @ r))"
| "template (Sub v # ps) =
     (case toString v of
        Inl e \<Rightarrow> Inl e
      | Inr s \<Rightarrow> (case template ps of Inl e \<Rightarrow> Inl e | Inr r \<Rightarrow> Inr (s @ r)))"

text \<open>
  The message of the TypeError raised by a method call \<^verbatim>\<open>x.m(...)\<close> on a value that has
  no callable \<open>m\<close>; \<open>suffix\<close> is what the engine adds when the result is destructured.
\<close>

definition callMessage :: "string \<Rightarrow> string \<Rightarrow> string \<Rightarrow> jsval \<Rightarrow> string" where
  "callMessage x m suffix v =
    (case v of
       JUndefined \<Rightarrow> ''Cannot read properties of undefined (reading '' @ sq @ m @ sq @ '')''
     | JNull \<Rightarrow> ''Cannot read properties of null (reading '' @ sq @ m @ sq @ '')''
     | _ \<Rightarrow> x @ ''.'' @ m @ '' is not a function'' @ suffix)"

definition splitErrorMessage :: "jsval \<Rightarrow> string" where
  "splitErrorMessage v =
     callMessage ''expectedValue'' ''split'' '' or its return value is not iterable'' v"

text \<open>\<^verbatim>\<open>s.startsWith(p)\<close> and \<^verbatim>\<open>s.includes(p)\<close> on strings.\<close>

fun startsWith :: "string \<Rightarrow> string \<Rightarrow> bool" where
  "startsWith s [] = True"
| "startsWith [] (p # ps) = False"
| "startsWith (c # cs) (p # ps) = (c = p \<and> startsWith cs ps)"

fun includes_str :: "string \<Rightarrow> string \<Rightarrow> bool" where
  "includes_str [] p = (p = [])"
| "includes_str (c # cs) p = (startsWith (c # cs) p \<or> includes_str cs p)"

text \<open>
  \<^verbatim>\<open>s.split(c)\<close> for a one-character separator: the pieces between the separators, so
  one more piece than there are separators, and never an empty array.
\<close>

fun split_on :: "char \<Rightarrow> string \<Rightarrow> string list" where
  "split_on sep [] = [[]]"
| "split_on sep (c # cs) =
     (if c = sep then [] # split_on sep cs
      else (case split_on sep cs of
              [] \<Rightarrow> [[c]]
            | p # ps \<Rightarrow> (c # p) # ps))"

text \<open>
  Array destructuring \<^verbatim>\<open>const [a, b] = parts\<close>: a position past the end of the array
  is \<open>undefined\<close>.
\<close>

definition elem :: "string list \<Rightarrow> nat \<Rightarrow> jsval" where
  "elem parts i = (if i < length parts then JStr (parts ! i) else JUndefined)"

text \<open>\<^verbatim>\<open>xs.join(sep)\<close> on an array of strings.\<close>

fun join :: "string \<Rightarrow> string list \<Rightarrow> string" where
  "join sep [] = []"
| "join sep [x] = x"
| "join sep (x # y # ys) = x @ sep @ join sep (y # ys)"

text \<open>Property read \<^verbatim>\<open>obj.k\<close> on a plain object: \<open>undefined\<close> when the key is absent.\<close>

definition getProp :: "(string \<times> jsval) list \<Rightarrow> string \<Rightarrow> jsval" where
  "getProp obj k = (case map_of obj k of Some v \<Rightarrow> v | None \<Rightarrow> JUndefined)"


section \<open>Numbers of the report\<close>

text \<open>
  The pass rate is computed in binary64 floating point.  A \<open>number\<close> is \<open>NaN\<close>, positive
  infinity or a finite value, kept as the rational it denotes.  \<open>binary64\<close> rounds a
  rational to the nearest double (ties to even, 53 significant bits); exponent range and
  subnormals are not modelled, which is exact for quotients of counts below \<open>2^53\<close>.
  Counts are natural numbers, so \<open>0 / 0\<close> is \<open>NaN\<close> and \<open>n / 0\<close> is infinite.
  \<open>Math.round\<close> rounds to the nearest integer, a half upwards, and keeps \<open>NaN\<close>.
  \<open>numberToString\<close> is the template-literal rendering, used on integer values only.
\<close>

datatype number = NaN | Infinity | Num rat

definition roundEven :: "rat \<Rightarrow> int" where
  "roundEven x =
    (let f = \<lfloor>x\<rfloor>; r = x - of_int f
     in if r < 1 / 2 then f else if 1 / 2 < r then f + 1 else if even f then f else f + 1)"

definition ilog2 :: "rat \<Rightarrow> int" where
  "ilog2 q =
    (let (a, b) = quotient_of q; e0 = bitlen a - bitlen b
     in if 2 powi e0 \<le> q then e0 else e0 - 1)"

definition binary64 :: "rat \<Rightarrow> rat" where
  "binary64 q =
    (if q = 0 then 0
     else if q < 0 then - (let e = ilog2 (- q) - 52 in of_int (roundEven (- q / 2 powi e)) * 2 powi e)
     else (let e = ilog2 q - 52 in of_int (roundEven (q / 2 powi e)) * 2 powi e))"

definition divide_num :: "nat \<Rightarrow> nat \<Rightarrow> number" where
  "divide_num a b =
    (if b = 0 then (if a = 0 then NaN else Infinity)
     else Num (binary64 (of_nat a / of_nat b)))"

fun times_num :: "number \<Rightarrow> nat \<Rightarrow> number" where
  "times_num NaN k = NaN"
| "times_num Infinity k = (if k = 0 then NaN else Infinity)"
| "times_num (Num q) k = Num (binary64 (q * of_nat k))"

fun mathRound :: "number \<Rightarrow> number" where
  "mathRound NaN = NaN"
| "mathRound Infinity = Infinity"
| "mathRound (Num q) = Num (of_int \<lfloor>q + 1 / 2\<rfloor>)"

fun numberToString :: "number \<Rightarrow> string" where
  "numberToString NaN = ''NaN''"
| "numberToString Infinity = ''Infinity''"
| "numberToString (Num q) = showInt \<lfloor>q\<rfloor>"


section \<open>The script-generating agent (testing-agent-cypress.js)\<close>

text \<open>
  \<open>this.testResults\<close> starts as an array to which \<open>generateElementTest\<close> pushes one record
  per compiled assertion; \<open>runTests\<close> later replaces the field by the result object of the
  external runner.  Both shapes are kept.
\<close>

record compiled =
  c_selector :: jsval
  c_testType :: jsval
  c_expected :: jsval
  c_testAction :: string

record run_results =
  has_runs :: bool
  totalTests :: "nat option"
  totalPassed :: "nat option"
  totalFailed :: "nat option"

datatype results = Entries "compiled list" | RunResults run_results

record agent =
  baseUrl :: jsval
  outputDir :: string
  testResults :: results
  specFiles :: "string list"

text \<open>
  The \<open>switch\<close> of \<open>generateElementTest\<close>.  Cases are compared with \<open>===\<close>, so only a
  string can select one.  \<open>expectedValue.split\<close> exists on strings only, and is called
  before the template of its case is evaluated.
\<close>

definition elementAction :: "jsval \<Rightarrow> jsval \<Rightarrow> jsval \<Rightarrow> error + string" where
  "elementAction selector testType expectedValue =
    (if testType = JStr ''exists'' then
       template [Lit (''cy.get('' @ sq), Sub selector, Lit (sq @ '').should('exist')'')]
     else if testType = JStr ''text'' then
       template [Lit (''cy.get('' @ sq), Sub selector, Lit (sq @ '').should('have.text', '' @ sq),
                 Sub expectedValue, Lit (sq @ '')'')]
     else if testType = JStr ''attribute'' then
       (case expectedValue of
          JStr s \<Rightarrow>
            (let parts = split_on CHR ''='' s; attrName = elem parts 0; attrValue = elem parts 1
             in template [Lit (''cy.get('' @ sq), Sub selector,
                          Lit (sq @ '').should('have.attr', '' @ sq), Sub attrName,
                          Lit (sq @ '', '' @ sq), Sub attrValue, Lit (sq @ '')'')])
        | _ \<Rightarrow> Inl (TypeError (splitErrorMessage expectedValue)))
     else if testType = JStr ''clickable'' then
       template [Lit (''cy.get('' @ sq), Sub selector, Lit (sq @ '').click()'')]
     else if testType = JStr ''visible'' then
       template [Lit (''cy.get('' @ sq), Sub selector, Lit (sq @ '').should('be.visible')'')]
     else if testType = JStr ''count'' then
       template [Lit (''cy.get('' @ sq), Sub selector, Lit (sq @ '').should('have.length', ''),
                 Sub expectedValue, Lit '')'']
     else if testType = JStr ''containsText'' then
       template [Lit (''cy.get('' @ sq), Sub selector, Lit (sq @ '').should('contain', '' @ sq),
                 Sub expectedValue, Lit (sq @ '')'')]
     else if testType = JStr ''cssProperty'' then
       (case expectedValue of
          JStr s \<Rightarrow>
            (let parts = split_on CHR ''='' s; property = elem parts 0; value = elem parts 1
             in template [Lit (''cy.get('' @ sq), Sub selector,
                          Lit (sq @ '').should('have.css', '' @ sq), Sub property,
                          Lit (sq @ '', '' @ sq), Sub value, Lit (sq @ '')'')])
        | _ \<Rightarrow> Inl (TypeError (splitErrorMessage expectedValue)))
     else
       (case template [Lit ''Unknown test type: '', Sub testType] of
          Inl e \<Rightarrow> Inl e
        | Inr msg \<Rightarrow> Inl (Error msg)))"

text \<open>
  \<open>generateElementTest\<close>: the switch, then \<open>this.testResults.push({...})\<close>, then the
  statement is returned.  A throw leaves the agent as it was; \<open>push\<close> exists only while
  \<open>testResults\<close> is still an array.
\<close>

definition generateElementTest ::
  "agent \<Rightarrow> jsval \<Rightarrow> jsval \<Rightarrow> jsval \<Rightarrow> (error + string) \<times> agent" where
  "generateElementTest ag selector testType expectedValue =
    (case elementAction selector testType expectedValue of
       Inl e \<Rightarrow> (Inl e, ag)
     | Inr testAction \<Rightarrow>
         (case testResults ag of
            Entries es \<Rightarrow>
              (Inr testAction,
               ag\<lparr>testResults := Entries (es @
                  [\<lparr>c_selector = selector, c_testType = testType,
                    c_expected = expectedValue, c_testAction = testAction\<rparr>])\<rparr>)
          | RunResults r \<Rightarrow>
              (Inl (TypeError ''this.testResults.push is not a function''), ag)))"

text \<open>
  \<open>generateNavigationAction\<close>: \<open>url.startsWith\<close> must exist, so \<open>url\<close> must be a string;
  for a url that does not start with \<open>http\<close> the template of \<open>fullUrl\<close> is evaluated, which
  converts \<open>this.baseUrl\<close>; the statement is then built from \<open>url\<close>.
\<close>

definition generateNavigationAction :: "agent \<Rightarrow> jsval \<Rightarrow> error + string" where
  "generateNavigationAction ag url =
    (case url of
       JStr u \<Rightarrow>
         (case (if startsWith u ''http'' then Inr u else template [Sub (baseUrl ag), Sub url]) of
            Inl e \<Rightarrow> Inl e
          | Inr fullUrl \<Rightarrow> template [Lit (''cy.visit('' @ sq), Sub url, Lit (sq @ '')'')])
     | _ \<Rightarrow> Inl (TypeError (callMessage ''url'' ''startsWith'' [] url)))"

definition generateScreenshotAction :: "jsval \<Rightarrow> error + string" where
  "generateScreenshotAction name =
     template [Lit (''cy.screenshot('' @ sq), Sub name, Lit (sq @ '')'')]"

text \<open>
  \<open>Object.entries(formData)\<close>: the own properties of an object; \<open>undefined\<close> and \<open>null\<close>
  raise; a string yields its characters keyed by their index; numbers and booleans have
  no own enumerable properties.
\<close>

definition entries :: "jsval \<Rightarrow> error + (string \<times> jsval) list" where
  "entries v =
    (case v of
       JObj ps \<Rightarrow> Inr ps
     | JStr s \<Rightarrow> Inr (map (\<lambda>(i, c). (showNat i, JStr [c])) (zip [0 ..< length s] s))
     | JUndefined \<Rightarrow> Inl (TypeError ''Cannot convert undefined or null to object'')
     | JNull \<Rightarrow> Inl (TypeError ''Cannot convert undefined or null to object'')
     | _ \<Rightarrow> Inr [])"

text \<open>
  The body of the loop of \<open>generateFormFillAction\<close>: the statement pushed for one field.
  A boolean value is not printed; any other value is converted by the template.
\<close>

definition fieldAction :: "string \<Rightarrow> jsval \<Rightarrow> error + string" where
  "fieldAction selector v =
    (case v of
       JBool b \<Rightarrow>
         (if b then template [Lit (''cy.get('' @ sq), Sub (JStr selector), Lit (sq @ '').check()'')]
          else template [Lit (''cy.get('' @ sq), Sub (JStr selector), Lit (sq @ '').uncheck()'')])
     | _ \<Rightarrow>
         (if includes_str selector ''select'' then
            template [Lit (''cy.get('' @ sq), Sub (JStr selector), Lit (sq @ '').select('' @ sq),
                      Sub v, Lit (sq @ '')'')]
          else
            template [Lit (''cy.get('' @ sq), Sub (JStr selector),
                      Lit (sq @ '').clear().type('' @ sq), Sub v, Lit (sq @ '')'')]))"

fun formFillLoop :: "(string \<times> jsval) list \<Rightarrow> string list \<Rightarrow> error + string list" where
  "formFillLoop [] actions = Inr actions"
| "formFillLoop ((selector, v) # rest) actions =
     (case fieldAction selector v of
        Inl e \<Rightarrow> Inl e
      | Inr action \<Rightarrow> formFillLoop rest (actions @ [action]))"

definition generateFormFillAction :: "jsval \<Rightarrow> error + string list" where
  "generateFormFillAction formData =
    (case entries formData of
       Inl e \<Rightarrow> Inl e
     | Inr es \<Rightarrow> formFillLoop es [])"

text \<open>
  The file system is the part of the world the agent writes to: \<open>files\<close> maps a path to its
  content, and \<open>writable\<close> says which writes succeed (a missing directory or a refused
  permission makes \<open>fs.writeFileSync\<close> throw).
\<close>

record world =
  files :: "string \<Rightarrow> string option"
  writable :: "string \<Rightarrow> bool"

definition writeFileSync :: "world \<Rightarrow> string \<Rightarrow> string \<Rightarrow> error + world" where
  "writeFileSync w path content =
    (if writable w path then Inr (w\<lparr>files := (files w)(path \<mapsto> content)\<rparr>)
     else Inl (FsError path))"

text \<open>
  \<open>testName.replace(/\s+/g, '_').toLowerCase()\<close>.  Of the white space of \<open>\s\<close> the code
  units below 256 are tab, line feed, vertical tab, form feed, carriage return, space and
  the no-break space.  The regular expression is greedy and global: every maximal run of
  white space becomes one underscore.  \<open>toLowerCase\<close> maps every code unit by itself;
  below 256 the ones it changes are \<open>A\<close> to \<open>Z\<close> and the accented capitals \<open>0xC0\<close> to
  \<open>0xDE\<close> without the multiplication sign \<open>0xD7\<close>, each moved up by 32.
\<close>

definition isSpace :: "char \<Rightarrow> bool" where
  "isSpace c = (c = CHR 0x09 \<or> c = CHR 0x0A \<or> c = CHR 0x0B \<or> c = CHR 0x0C
                \<or> c = CHR 0x0D \<or> c = CHR '' '' \<or> c = CHR 0xA0)"

function replaceSpaces :: "string \<Rightarrow> string" where
  "replaceSpaces [] = []"
| "replaceSpaces (c # cs) =
     (if isSpace c then CHR ''_'' # replaceSpaces (dropWhile isSpace cs)
      else c # replaceSpaces cs)"
  by pat_completeness auto
termination
  by (relation "measure length") (auto simp: length_dropWhile_le less_Suc_eq_le)

definition toLowerChar :: "char \<Rightarrow> char" where
  "toLowerChar c =
    (let n = (of_char c :: nat)
     in if (65 \<le> n \<and> n \<le> 90) \<or> (192 \<le> n \<and> n \<le> 214) \<or> (216 \<le> n \<and> n \<le> 222)
        then char_of (n + 32)
        else c)"

definition toLowerCase :: "string \<Rightarrow> string" where
  "toLowerCase s = map toLowerChar s"

definition nl :: string where
  "nl = [CHR 0x0A]"

text \<open>
  \<open>createTest\<close>: derive the file name, fill the template, write the file, remember the
  path and return it.
\<close>

definition testContent :: "string \<Rightarrow> string list \<Rightarrow> string" where
  "testContent testName testActions =
     nl @ ''    describe('' @ sq @ testName @ sq @ '', () => {'' @ nl
     @ ''      it('performs UI testing', () => {'' @ nl
     @ ''        '' @ join (nl @ ''        '') testActions @ nl
     @ ''      })'' @ nl
     @ ''    })'' @ nl
     @ ''    ''"

definition createTest ::
  "world \<Rightarrow> agent \<Rightarrow> string \<Rightarrow> string list \<Rightarrow> (error + string) \<times> world \<times> agent" where
  "createTest w ag testName testActions =
    (let specFileName = toLowerCase (replaceSpaces testName) @ ''.cy.js'';
         specFilePath = ''./cypress/e2e/'' @ specFileName
     in case writeFileSync w specFilePath (testContent testName testActions) of
          Inl e \<Rightarrow> (Inl e, w, ag)
        | Inr w' \<Rightarrow> (Inr specFilePath, w', ag\<lparr>specFiles := specFiles ag @ [specFilePath]\<rparr>))"

text \<open>
  One round of the loop of \<open>buildTestSuite\<close>: the statements pushed to \<open>testActions\<close> for
  one action.  Reading \<open>action.type\<close> raises on \<open>undefined\<close> and \<open>null\<close> and is
  \<open>undefined\<close> on any other value that is not an object.  The chain of \<open>else if\<close> has no
  final \<open>else\<close>.
\<close>

definition compileAction :: "agent \<Rightarrow> jsval \<Rightarrow> (error + string list) \<times> agent" where
  "compileAction ag action =
    (case action of
       JUndefined \<Rightarrow>
         (Inl (TypeError (''Cannot read properties of undefined (reading 'type')'')), ag)
     | JNull \<Rightarrow> (Inl (TypeError (''Cannot read properties of null (reading 'type')'')), ag)
     | JObj ps \<Rightarrow>
         (let ty = getProp ps ''type'' in
          if ty = JStr ''navigate'' then
            (case generateNavigationAction ag (getProp ps ''url'') of
               Inl e \<Rightarrow> (Inl e, ag)
             | Inr s \<Rightarrow> (Inr [s], ag))
          else if ty = JStr ''testElement'' then
            (case generateElementTest ag (getProp ps ''selector'') (getProp ps ''testType'')
                    (getProp ps ''expectedValue'') of
               (Inl e, ag') \<Rightarrow> (Inl e, ag')
             | (Inr s, ag') \<Rightarrow> (Inr [s], ag'))
          else if ty = JStr ''fillForm'' then
            (case generateFormFillAction (getProp ps ''formData'') of
               Inl e \<Rightarrow> (Inl e, ag)
             | Inr ss \<Rightarrow> (Inr ss, ag))
          else if ty = JStr ''screenshot'' then
            (case generateScreenshotAction (getProp ps ''name'') of
               Inl e \<Rightarrow> (Inl e, ag)
             | Inr s \<Rightarrow> (Inr [s], ag))
          else if ty = JStr ''wait'' then
            (case template [Lit ''cy.wait('', Sub (getProp ps ''milliseconds''), Lit '')''] of
               Inl e \<Rightarrow> (Inl e, ag)
             | Inr s \<Rightarrow> (Inr [s], ag))
          else (Inr [], ag))
     | _ \<Rightarrow> (Inr [], ag))"

fun compileLoop :: "agent \<Rightarrow> jsval list \<Rightarrow> string list \<Rightarrow> (error + string list) \<times> agent" where
  "compileLoop ag [] testActions = (Inr testActions, ag)"
| "compileLoop ag (action # rest) testActions =
     (case compileAction ag action of
        (Inl e, ag') \<Rightarrow> (Inl e, ag')
      | (Inr ss, ag') \<Rightarrow> compileLoop ag' rest (testActions @ ss))"

definition buildTestSuite ::
  "world \<Rightarrow> agent \<Rightarrow> string \<Rightarrow> jsval list \<Rightarrow> (error + string) \<times> world \<times> agent" where
  "buildTestSuite w ag suiteName actions =
    (case compileLoop ag actions [] of
       (Inl e, ag') \<Rightarrow> (Inl e, w, ag')
     | (Inr testActions, ag') \<Rightarrow> createTest w ag' suiteName testActions)"

text \<open>The convenience methods that build action objects.\<close>

definition navigateTo :: "jsval \<Rightarrow> jsval" where
  "navigateTo url = JObj [(''type'', JStr ''navigate''), (''url'', url)]"

definition testElement :: "jsval \<Rightarrow> jsval \<Rightarrow> jsval \<Rightarrow> jsval" where
  "testElement selector testType expectedValue =
     JObj [(''type'', JStr ''testElement''), (''selector'', selector),
           (''testType'', testType), (''expectedValue'', expectedValue)]"

definition fillForm :: "jsval \<Rightarrow> jsval" where
  "fillForm formData = JObj [(''type'', JStr ''fillForm''), (''formData'', formData)]"

definition captureScreenshot :: "jsval \<Rightarrow> jsval" where
  "captureScreenshot name = JObj [(''type'', JStr ''screenshot''), (''name'', name)]"

definition wait :: "jsval \<Rightarrow> jsval" where
  "wait milliseconds = JObj [(''type'', JStr ''wait''), (''milliseconds'', milliseconds)]"

text \<open>
  \<open>generateReport\<close> of the script-generating agent returns without a report unless
  \<open>this.testResults.runs\<close> is present (an array of compiled records has no such field).
  Otherwise the totals are read with \<^verbatim>\<open>|| 0\<close> and the summary of \<open>report.html\<close> carries the
  line modelled here; the rest of the document and the two file writes are left out.
  \<open>generateReport ag\<close> is that line, or \<open>None\<close> when no report is written.
\<close>

definition orZero :: "nat option \<Rightarrow> nat" where
  "orZero v = (case v of None \<Rightarrow> 0 | Some n \<Rightarrow> n)"

definition passRateLine :: "string \<Rightarrow> string" where
  "passRateLine rate = ''        <p>Pass Rate: '' @ rate @ ''%</p>''"

definition generateReport :: "agent \<Rightarrow> string option" where
  "generateReport ag =
    (case testResults ag of
       Entries es \<Rightarrow> None
     | RunResults r \<Rightarrow>
         (if \<not> has_runs r then None
          else
            (let totalTests = orZero (totalTests r);
                 passedTests = orZero (totalPassed r);
                 failedTests = orZero (totalFailed r)
             in Some (passRateLine
                  (if totalTests > 0
                   then numberToString (mathRound (times_num (divide_num passedTests totalTests) 100))
                   else numberToString (Num 0))))))"


section \<open>The direct-driver agent (Playwright variant)\<close>

text \<open>
  The second \<open>UITestingAgent\<close> drives a browser page itself; its functions carry the prefix
  \<open>pw_\<close>.  \<open>this.testResults\<close> is an array of result records; a field that the source
  leaves out of a record is \<open>None\<close>.  The page belongs to the external engine: each of its
  operations either returns a value or throws an \<open>Error\<close> with a message (\<open>Inl\<close> or \<open>Some\<close>
  of the message).  \<open>now\<close> is what \<open>new Date().toISOString()\<close> returns.

  \<open>tryBlock\<close> is the body of the \<open>try\<close> of \<open>testElement\<close> up to the push: it yields the
  result and the actual value, or the message of what was thrown.  \<open>pw_testElement\<close> adds
  the push of the \<open>try\<close>, or the push of the \<open>catch\<close> followed by its \<open>console.error\<close>,
  whose template converts the selector and so can throw in its turn; the promise is then
  rejected after the record was pushed.  \<open>pw_generateReport\<close> is the pass-rate line of its
  \<open>report.html\<close>.
\<close>

record pw_result =
  r_selector :: jsval
  r_testType :: jsval
  r_expected :: jsval
  r_actual :: "jsval option"
  r_error :: "string option"
  r_passed :: bool
  r_timestamp :: string

record pw_agent =
  pw_baseUrl :: jsval
  pw_outputDir :: string
  pw_testResults :: "pw_result list"

definition pw_generateReport :: "pw_agent \<Rightarrow> string" where
  "pw_generateReport ag =
    (let passedTests = length (filter r_passed (pw_testResults ag));
         totalTests = length (pw_testResults ag)
     in passRateLine (numberToString (mathRound (times_num (divide_num passedTests totalTests) 100))))"

record page =
  waitForSelector :: "jsval \<Rightarrow> string option"
  isVisible :: "jsval \<Rightarrow> string + bool"
  textContent :: "jsval \<Rightarrow> string + jsval"
  getAttribute :: "jsval \<Rightarrow> jsval \<Rightarrow> string + jsval"
  click :: "jsval \<Rightarrow> string option"

definition tryBlock :: "page \<Rightarrow> jsval \<Rightarrow> jsval \<Rightarrow> jsval \<Rightarrow> string + (bool \<times> jsval)" where
  "tryBlock pg selector testType expectedValue =
    (case waitForSelector pg selector of
       Some msg \<Rightarrow> Inl msg
     | None \<Rightarrow>
         (if testType = JStr ''exists'' then
            (case isVisible pg selector of
               Inl msg \<Rightarrow> Inl msg
             | Inr visible \<Rightarrow> Inr (visible, JNull))
          else if testType = JStr ''text'' then
            (case textContent pg selector of
               Inl msg \<Rightarrow> Inl msg
             | Inr actualValue \<Rightarrow> Inr (actualValue = expectedValue, actualValue))
          else if testType = JStr ''attribute'' then
            (case expectedValue of
               JStr s \<Rightarrow>
                 (let parts = split_on CHR ''='' s; attrName = elem parts 0; attrValue = elem parts 1
                  in case getAttribute pg selector attrName of
                       Inl msg \<Rightarrow> Inl msg
                     | Inr actualValue \<Rightarrow> Inr (actualValue = attrValue, actualValue))
             | _ \<Rightarrow> Inl (splitErrorMessage expectedValue))
          else if testType = JStr ''clickable'' then
            (case click pg selector of
               Some msg \<Rightarrow> Inl msg
             | None \<Rightarrow> Inr (True, JNull))
          else
            (case template [Lit ''Unknown test type: '', Sub testType] of
               Inl e \<Rightarrow> Inl conversionMessage
             | Inr msg \<Rightarrow> Inl msg)))"

definition pw_testElement ::
  "page \<Rightarrow> string \<Rightarrow> pw_agent \<Rightarrow> jsval \<Rightarrow> jsval \<Rightarrow> jsval \<Rightarrow> (error + bool) \<times> pw_agent" where
  "pw_testElement pg now ag selector testType expectedValue =
    (case tryBlock pg selector testType expectedValue of
       Inr (result, actualValue) \<Rightarrow>
         (Inr result,
          ag\<lparr>pw_testResults := pw_testResults ag @
             [\<lparr>r_selector = selector, r_testType = testType, r_expected = expectedValue,
               r_actual = Some actualValue, r_error = None, r_passed = result,
               r_timestamp = now\<rparr>]\<rparr>)
     | Inl message \<Rightarrow>
         (let ag' = ag\<lparr>pw_testResults := pw_testResults ag @
                [\<lparr>r_selector = selector, r_testType = testType, r_expected = expectedValue,
                  r_actual = None, r_error = Some message, r_passed = False,
                  r_timestamp = now\<rparr>]\<rparr>
          in case template [Lit ''Test failed for '', Sub selector, Lit '': '', Lit message] of
               Inl e \<Rightarrow> (Inl e, ag')
             | Inr line \<Rightarrow> (Inr False, ag')))"


section \<open>The route and viewport report (CypressTestAgent)\<close>

text \<open>
  \<open>CypressTestAgent.generateReport\<close> keeps the \<open>.png\<close> files, takes
  \<open>path.basename(file, '.png')\<close> (POSIX paths), splits it at hyphens and files each name of
  two segments or more under \<open>reportData[route][viewport]\<close>.

  \<open>reportData\<close> and the objects stored in it are created by \<open>{}\<close>, so a property read sees
  the own properties first and then those of \<open>Object.prototype\<close>, whose keys are listed in
  \<open>objectPrototypeKeys\<close>; all of them hold truthy values that have no \<open>push\<close>.  Own
  properties are association lists in order of creation.  The outcome \<open>Raised\<close> is a thrown
  error.  \<open>BuiltinReached k\<close> marks the point where \<open>reportData[k]\<close> is an inherited built-in
  object and the code goes on to read and write that object's properties; what follows
  depends on the built-in and is not modelled.
\<close>

definition endsWith :: "string \<Rightarrow> string \<Rightarrow> bool" where
  "endsWith s p = startsWith (rev s) (rev p)"

definition lastSegment :: "string \<Rightarrow> string" where
  "lastSegment path =
    rev (takeWhile (\<lambda>c. c \<noteq> CHR ''/'') (dropWhile (\<lambda>c. c = CHR ''/'') (rev path)))"

definition basename :: "string \<Rightarrow> string \<Rightarrow> string" where
  "basename path ext =
    (if ext \<noteq> [] \<and> path = ext then []
     else
       (let base = lastSegment path
        in if ext \<noteq> [] \<and> endsWith base ext \<and> base \<noteq> ext
           then take (length base - length ext) base
           else base))"

definition objectPrototypeKeys :: "string list" where
  "objectPrototypeKeys =
     [''constructor'', ''__defineGetter__'', ''__defineSetter__'', ''hasOwnProperty'',
      ''__lookupGetter__'', ''__lookupSetter__'', ''isPrototypeOf'', ''propertyIsEnumerable'',
      ''toString'', ''valueOf'', ''__proto__'', ''toLocaleString'']"

type_synonym report_data = "(string \<times> (string \<times> string list) list) list"

datatype grouping = Grouped report_data | Raised error | BuiltinReached string

fun setOwn :: "('k \<times> 'v) list \<Rightarrow> 'k \<Rightarrow> 'v \<Rightarrow> ('k \<times> 'v) list" where
  "setOwn [] k v = [(k, v)]"
| "setOwn ((k', v') # ps) k v = (if k' = k then (k, v) # ps else (k', v') # setOwn ps k v)"

definition addFile :: "report_data \<Rightarrow> string \<Rightarrow> string \<Rightarrow> string \<Rightarrow> grouping" where
  "addFile reportData route viewport file =
    (case map_of reportData route of
       None \<Rightarrow>
         (if route \<in> set objectPrototypeKeys then BuiltinReached route
          else if viewport \<in> set objectPrototypeKeys
          then Raised (TypeError ''reportData[route][viewport].push is not a function'')
          else Grouped (setOwn reportData route [(viewport, [file])]))
     | Some inner \<Rightarrow>
         (case map_of inner viewport of
            None \<Rightarrow>
              (if viewport \<in> set objectPrototypeKeys
               then Raised (TypeError ''reportData[route][viewport].push is not a function'')
               else Grouped (setOwn reportData route (setOwn inner viewport [file])))
          | Some shots \<Rightarrow>
              Grouped (setOwn reportData route (setOwn inner viewport (shots @ [file])))))"

fun groupFiles :: "report_data \<Rightarrow> string list \<Rightarrow> grouping" where
  "groupFiles reportData [] = Grouped reportData"
| "groupFiles reportData (file # rest) =
     (let filename = basename file ''.png''; parts = split_on CHR ''-'' filename
      in if length parts \<ge> 2 then
           (case addFile reportData (parts ! 0) (parts ! 1) file of
              Grouped reportData' \<Rightarrow> groupFiles reportData' rest
            | Raised e \<Rightarrow> Raised e
            | BuiltinReached k \<Rightarrow> BuiltinReached k)
         else groupFiles reportData rest)"

definition cta_generateReport :: "string list \<Rightarrow> grouping" where
  "cta_generateReport allFiles = groupFiles [] (filter (\<lambda>file. endsWith file ''.png'') allFiles)"

definition groupOf :: "report_data \<Rightarrow> string \<Rightarrow> string \<Rightarrow> string list" where
  "groupOf reportData route viewport =
    (case map_of reportData route of
       None \<Rightarrow> []
     | Some inner \<Rightarrow> (case map_of inner viewport of None \<Rightarrow> [] | Some shots \<Rightarrow> shots))"


section \<open>Vocabulary of the specification and example inputs\<close>


definition actionTypes :: "string list" where
  "actionTypes = [''navigate'', ''testElement'', ''fillForm'', ''screenshot'', ''wait'']"

definition exampleAgent :: agent where
  "exampleAgent = \<lparr>baseUrl = JStr ''https://example.com'', outputDir = ''./cypress/results'',
                    testResults = Entries [], specFiles = []\<rparr>"

definition freshAgent :: agent where
  "freshAgent = \<lparr>baseUrl = JUndefined, outputDir = ''./cypress/results'',
                  testResults = Entries [], specFiles = []\<rparr>"

definition statementsOf :: "jsval \<Rightarrow> string list" where
  "statementsOf action =
    (case fst (compileAction freshAgent action) of
       Inr ss \<Rightarrow> ss
     | Inl e \<Rightarrow> [])"

definition unprintable :: jsval where
  "unprintable = JObj [(''toString'', JNull)]"






definition exampleWorld :: world where
  "exampleWorld = \<lparr>files = (\<lambda>p. None), writable = (\<lambda>p. True)\<rparr>"

definition upperLetters :: string where
  "upperLetters = ''ABCDEFGHIJKLMNOPQRSTUVWXYZ'' @
     [CHR 0xC0, CHR 0xC1, CHR 0xC2, CHR 0xC3, CHR 0xC4, CHR 0xC5, CHR 0xC6, CHR 0xC7,
      CHR 0xC8, CHR 0xC9, CHR 0xCA, CHR 0xCB, CHR 0xCC, CHR 0xCD, CHR 0xCE, CHR 0xCF,
      CHR 0xD0, CHR 0xD1, CHR 0xD2, CHR 0xD3, CHR 0xD4, CHR 0xD5, CHR 0xD6,
      CHR 0xD8, CHR 0xD9, CHR 0xDA, CHR 0xDB, CHR 0xDC, CHR 0xDD, CHR 0xDE]"

definition lowerLetters :: string where
  "lowerLetters = ''abcdefghijklmnopqrstuvwxyz'' @
     [CHR 0xE0, CHR 0xE1, CHR 0xE2, CHR 0xE3, CHR 0xE4, CHR 0xE5, CHR 0xE6, CHR 0xE7,
      CHR 0xE8, CHR 0xE9, CHR 0xEA, CHR 0xEB, CHR 0xEC, CHR 0xED, CHR 0xEE, CHR 0xEF,
      CHR 0xF0, CHR 0xF1, CHR 0xF2, CHR 0xF3, CHR 0xF4, CHR 0xF5, CHR 0xF6,
      CHR 0xF8, CHR 0xF9, CHR 0xFA, CHR 0xFB, CHR 0xFC, CHR 0xFD, CHR 0xFE]"

definition exampleActions :: "jsval list" where
  "exampleActions =
     [navigateTo (JStr ''/''),
      testElement (JStr ''h1'') (JStr ''text'') (JStr ''Example Domain''),
      captureScreenshot (JStr ''homepage'')]"

definition examplePwAgent :: pw_agent where
  "examplePwAgent = \<lparr>pw_baseUrl = JStr ''https://example.com'', pw_outputDir = ''./test-results'',
                      pw_testResults = []\<rparr>"

definition missingPage :: page where
  "missingPage =
     \<lparr>waitForSelector = (\<lambda>s. Some ''Timeout 5000ms exceeded.''),
      isVisible = (\<lambda>s. Inr False),
      textContent = (\<lambda>s. Inr JNull),
      getAttribute = (\<lambda>s a. Inr JNull),
      click = (\<lambda>s. None)\<rparr>"

definition brokenPage :: page where
  "brokenPage =
     \<lparr>waitForSelector = (\<lambda>s. None),
      isVisible = (\<lambda>s. Inl ''isVisible: Target closed''),
      textContent = (\<lambda>s. Inl ''textContent: Target closed''),
      getAttribute = (\<lambda>s a. Inl ''getAttribute: Target closed''),
      click = (\<lambda>s. Some ''click: Target closed'')\<rparr>"

definition failedEntry :: "string \<Rightarrow> jsval \<Rightarrow> jsval \<Rightarrow> jsval \<Rightarrow> string \<Rightarrow> pw_result" where
  "failedEntry now selector testType expectedValue message =
     \<lparr>r_selector = selector, r_testType = testType, r_expected = expectedValue,
      r_actual = None, r_error = Some message, r_passed = False, r_timestamp = now\<rparr>"

definition recorded :: "pw_agent \<Rightarrow> pw_result \<Rightarrow> pw_agent" where
  "recorded ag entry = ag\<lparr>pw_testResults := pw_testResults ag @ [entry]\<rparr>"

definition routeViewport :: "string \<Rightarrow> (string \<times> string) option" where
  "routeViewport file =
    (let parts = split_on CHR ''-'' (basename file ''.png'')
     in if length parts \<ge> 2 then Some (parts ! 0, parts ! 1) else None)"


section \<open>Conversion to a string\<close>

text \<open>
  The only error of the conversion is the TypeError of an object that cannot be
  converted, such as \<open>unprintable\<close>.
\<close>

lemma toString_error: "toString v = Inl e \<Longrightarrow> e = TypeError conversionMessage"
  by (cases v) (auto split: if_splits)

lemma toString_unprintable: "toString unprintable = Inl (TypeError conversionMessage)"
  by (simp add: unprintable_def)


section \<open>Navigation statements\<close>





section \<open>Element tests\<close>




text \<open>
  C7. Compiling the same element test a second time, on the agent as the first call left
  it, gives the same outcome as the first time; and on any agent whose \<open>testResults\<close> is
  still an array the outcome is \<open>elementAction\<close> of the three arguments alone.
\<close>

theorem element_test_deterministic:
  "fst (generateElementTest (snd (generateElementTest ag s k e)) s k e) =
     fst (generateElementTest ag s k e)
   \<and> fst (generateElementTest (ag\<lparr>testResults := Entries es\<rparr>) s k e) = elementAction s k e"
  by (auto simp: generateElementTest_def split: sum.splits results.splits)


section \<open>Form filling\<close>

text \<open>
  \<open>includes_str\<close> is the substring test.  The statement of a fillable field is the one
  the specification describes, a field that is not fillable throws, and the loop of
  \<open>generateFormFillAction\<close> pushes one statement per field, in order, until a field throws.
\<close>

lemma startsWith_iff: "startsWith s p \<longleftrightarrow> (\<exists>b. s = p @ b)"
  by (induction s p rule: startsWith.induct) auto

lemma includes_str_iff: "includes_str s p \<longleftrightarrow> (\<exists>a b. s = a @ p @ b)"
proof (induction s)
  case Nil
  then show ?case by simp
next
  case (Cons c cs)
  show ?case
  proof
    assume "includes_str (c # cs) p"
    then consider "startsWith (c # cs) p" | "includes_str cs p" by auto
    then show "\<exists>a b. c # cs = a @ p @ b"
    proof cases
      case 1
      then obtain b where "c # cs = p @ b" by (auto simp: startsWith_iff)
      then have "c # cs = [] @ p @ b" by simp
      then show ?thesis by blast
    next
      case 2
      with Cons.IH obtain a b where "cs = a @ p @ b" by auto
      then have "c # cs = (c # a) @ p @ b" by simp
      then show ?thesis by blast
    qed
  next
    assume "\<exists>a b. c # cs = a @ p @ b"
    then obtain a b where ab: "c # cs = a @ p @ b" by blast
    show "includes_str (c # cs) p"
    proof (cases a)
      case Nil
      with ab have "startsWith (c # cs) p" by (auto simp: startsWith_iff)
      then show ?thesis by simp
    next
      case (Cons x xs)
      with ab have "cs = xs @ p @ b" by simp
      with Cons.IH have "includes_str cs p" by blast
      then show ?thesis by simp
    qed
  qed
qed









section \<open>Building a suite\<close>

text \<open>
  The statements an action compiles to on some agent are the ones it compiles to on a
  fresh agent, and the loop appends them in the order of the actions.
\<close>

lemma generateNavigationAction_fresh:
  "generateNavigationAction ag url = Inr s \<Longrightarrow> generateNavigationAction freshAgent url = Inr s"
  by (cases url)
     (auto simp: generateNavigationAction_def freshAgent_def split: if_splits sum.splits)

lemma generateElementTest_Inr:
  "generateElementTest ag s k e = (Inr t, ag') \<Longrightarrow> elementAction s k e = Inr t"
  by (auto simp: generateElementTest_def split: sum.splits results.splits)

lemma generateElementTest_fresh:
  "elementAction s k e = Inr t \<Longrightarrow> fst (generateElementTest freshAgent s k e) = Inr t"
  by (simp add: generateElementTest_def freshAgent_def)

lemma compileAction_obj:
  assumes "compileAction ag (JObj ps) = (Inr ss, ag')"
  shows "fst (compileAction freshAgent (JObj ps)) = Inr ss"
proof -
  let ?ty = "getProp ps ''type''"
  consider (nav) "?ty = JStr ''navigate''"
    | (el) "?ty = JStr ''testElement''"
    | (form) "?ty = JStr ''fillForm''"
    | (shot) "?ty = JStr ''screenshot''"
    | (wt) "?ty = JStr ''wait''"
    | (other) "?ty \<noteq> JStr ''navigate''" "?ty \<noteq> JStr ''testElement''"
        "?ty \<noteq> JStr ''fillForm''" "?ty \<noteq> JStr ''screenshot''" "?ty \<noteq> JStr ''wait''"
    by blast
  then show ?thesis
  proof cases
    case nav
    with assms show ?thesis
      by (auto simp: compileAction_def split: sum.splits dest: generateNavigationAction_fresh)
  next
    case el
    obtain r ag1 where g: "generateElementTest ag (getProp ps ''selector'')
        (getProp ps ''testType'') (getProp ps ''expectedValue'') = (r, ag1)"
      by (cases "generateElementTest ag (getProp ps ''selector'')
        (getProp ps ''testType'') (getProp ps ''expectedValue'')")
    with assms el obtain t where r: "r = Inr t" and ss: "ss = [t]"
      by (cases r) (auto simp: compileAction_def)
    from g r have "elementAction (getProp ps ''selector'') (getProp ps ''testType'')
        (getProp ps ''expectedValue'') = Inr t"
      by (auto dest: generateElementTest_Inr)
    then have "fst (generateElementTest freshAgent (getProp ps ''selector'')
        (getProp ps ''testType'') (getProp ps ''expectedValue'')) = Inr t"
      by (rule generateElementTest_fresh)
    then obtain ag2 where "generateElementTest freshAgent (getProp ps ''selector'')
        (getProp ps ''testType'') (getProp ps ''expectedValue'') = (Inr t, ag2)"
      by (cases "generateElementTest freshAgent (getProp ps ''selector'')
        (getProp ps ''testType'') (getProp ps ''expectedValue'')") simp
    with el ss show ?thesis
      by (simp add: compileAction_def)
  next
    case form
    with assms show ?thesis
      by (simp add: compileAction_def split: sum.splits)
  next
    case shot
    with assms show ?thesis
      by (simp add: compileAction_def split: sum.splits)
  next
    case wt
    with assms show ?thesis
      by (simp add: compileAction_def split: sum.splits)
  next
    case other
    with assms show ?thesis
      by (simp add: compileAction_def)
  qed
qed

lemma compileAction_statementsOf:
  assumes "compileAction ag a = (Inr ss, ag')"
  shows "ss = statementsOf a"
proof (cases a)
  case (JObj ps)
  with assms have "fst (compileAction freshAgent (JObj ps)) = Inr ss"
    by (auto dest: compileAction_obj)
  with JObj show ?thesis
    by (simp add: statementsOf_def)
qed (use assms in \<open>simp_all add: statementsOf_def compileAction_def\<close>)

lemma compileLoop_order:
  "compileLoop ag actions acc = (Inr out, ag') \<Longrightarrow> out = acc @ concat (map statementsOf actions)"
proof (induction actions arbitrary: ag acc)
  case Nil
  then show ?case by simp
next
  case (Cons a actions)
  obtain r ag1 where step: "compileAction ag a = (r, ag1)"
    by (cases "compileAction ag a")
  with Cons.prems obtain ss where r: "r = Inr ss"
    by (cases r) auto
  from step r have ss: "ss = statementsOf a"
    by (auto dest: compileAction_statementsOf)
  from Cons.prems step r have "compileLoop ag1 actions (acc @ ss) = (Inr out, ag')"
    by simp
  then have "out = (acc @ ss) @ concat (map statementsOf actions)"
    by (rule Cons.IH)
  with ss show ?case by simp
qed

lemma compileAction_unknown:
  assumes "\<forall>t \<in> set actionTypes. getProp ps ''type'' \<noteq> JStr t"
  shows "compileAction ag (JObj ps) = (Inr [], ag)"
  using assms by (simp add: compileAction_def actionTypes_def)

lemma compileLoop_drop:
  assumes "\<And>ag. compileAction ag a = (Inr [], ag)"
  shows "compileLoop ag (pre @ a # post) acc = compileLoop ag (pre @ post) acc"
proof (induction pre arbitrary: ag acc)
  case Nil
  then show ?case by (simp add: assms)
next
  case (Cons p pre)
  then show ?case by (simp split: prod.splits sum.splits)
qed

lemma example_stem: "toLowerCase ''Example_Test'' = ''example_test''"
  by code_simp

text \<open>
  C5. When \<open>buildTestSuite\<close> returns a path, the file written there is the template filled
  with the statements of the first action, then those of the second, and so on: the
  concatenation, in the authored order, of what each action compiles to.  Whatever agent
  compiles an action, the statements are \<open>statementsOf\<close> that action.  Navigate, assert-text
  and screenshot give three statements in that order.
\<close>

theorem suite_preserves_order:
  "(buildTestSuite w ag suiteName actions = (Inr path, w', ag') \<longrightarrow>
      files w' path = Some (testContent suiteName (concat (map statementsOf actions))))
   \<and> (compileAction st action = (Inr ss, st') \<longrightarrow> ss = statementsOf action)
   \<and> concat (map statementsOf
         [navigateTo (JStr ''/''),
          testElement (JStr ''h1'') (JStr ''text'') (JStr ''Example Domain''),
          captureScreenshot (JStr ''homepage'')]) =
       [''cy.visit('' @ sq @ ''/'' @ sq @ '')'',
        ''cy.get('' @ sq @ ''h1'' @ sq @ '').should('have.text', '' @ sq @ ''Example Domain'' @ sq @ '')'',
        ''cy.screenshot('' @ sq @ ''homepage'' @ sq @ '')'']"
proof (intro conjI impI)
  assume b: "buildTestSuite w ag suiteName actions = (Inr path, w', ag')"
  obtain r ag1 where loop: "compileLoop ag actions [] = (r, ag1)"
    by (cases "compileLoop ag actions []")
  with b obtain out where r: "r = Inr out"
    by (cases r) (auto simp: buildTestSuite_def)
  from loop r have out: "out = concat (map statementsOf actions)"
    by (auto dest: compileLoop_order)
  from b loop r have "createTest w ag1 suiteName out = (Inr path, w', ag')"
    by (simp add: buildTestSuite_def)
  then have "files w' path = Some (testContent suiteName out)"
    by (auto simp: createTest_def writeFileSync_def Let_def split: if_splits)
  with out show "files w' path = Some (testContent suiteName (concat (map statementsOf actions)))"
    by simp
next
  assume "compileAction st action = (Inr ss, st')"
  then show "ss = statementsOf action"
    by (rule compileAction_statementsOf)
next
  show "concat (map statementsOf
         [navigateTo (JStr ''/''),
          testElement (JStr ''h1'') (JStr ''text'') (JStr ''Example Domain''),
          captureScreenshot (JStr ''homepage'')]) =
       [''cy.visit('' @ sq @ ''/'' @ sq @ '')'',
        ''cy.get('' @ sq @ ''h1'' @ sq @ '').should('have.text', '' @ sq @ ''Example Domain'' @ sq @ '')'',
        ''cy.screenshot('' @ sq @ ''homepage'' @ sq @ '')'']"
    by (simp add: statementsOf_def compileAction_def navigateTo_def testElement_def
          captureScreenshot_def getProp_def generateNavigationAction_def generateElementTest_def
          elementAction_def generateScreenshotAction_def freshAgent_def sq_def)
qed

text \<open>
  An instance: the example suite written to \<open>./cypress/e2e/example_test.cy.js\<close>.
\<close>

theorem suite_preserves_order_witness:
  "buildTestSuite exampleWorld exampleAgent ''Example Test'' exampleActions =
     (Inr ''./cypress/e2e/example_test.cy.js'',
      snd (buildTestSuite exampleWorld exampleAgent ''Example Test'' exampleActions))
   \<and> compileAction exampleAgent (captureScreenshot (JStr ''homepage'')) =
       (Inr [''cy.screenshot('' @ sq @ ''homepage'' @ sq @ '')''], exampleAgent)
   \<and> files (fst (snd (buildTestSuite exampleWorld exampleAgent ''Example Test'' exampleActions)))
         ''./cypress/e2e/example_test.cy.js'' =
       Some (testContent ''Example Test''
         [''cy.visit('' @ sq @ ''/'' @ sq @ '')'',
          ''cy.get('' @ sq @ ''h1'' @ sq @ '').should('have.text', '' @ sq @ ''Example Domain'' @ sq @ '')'',
          ''cy.screenshot('' @ sq @ ''homepage'' @ sq @ '')''])"
proof -
  let ?r = "buildTestSuite exampleWorld exampleAgent ''Example Test'' exampleActions"
  have run: "fst ?r = Inr ''./cypress/e2e/example_test.cy.js''"
    by (simp add: buildTestSuite_def exampleActions_def compileAction_def navigateTo_def
          testElement_def captureScreenshot_def getProp_def generateNavigationAction_def
          generateElementTest_def elementAction_def generateScreenshotAction_def
          exampleAgent_def exampleWorld_def createTest_def writeFileSync_def Let_def sq_def
          isSpace_def example_stem)
  then have eq: "?r = (Inr ''./cypress/e2e/example_test.cy.js'', fst (snd ?r), snd (snd ?r))"
    by (metis prod.collapse)
  have shot: "compileAction exampleAgent (captureScreenshot (JStr ''homepage'')) =
       (Inr [''cy.screenshot('' @ sq @ ''homepage'' @ sq @ '')''], exampleAgent)"
    by (simp add: compileAction_def captureScreenshot_def getProp_def
          generateScreenshotAction_def sq_def)
  from suite_preserves_order [of exampleWorld exampleAgent "''Example Test''" exampleActions
      "''./cypress/e2e/example_test.cy.js''" "fst (snd ?r)" "snd (snd ?r)"
      exampleAgent "captureScreenshot (JStr ''homepage'')"
      "[''cy.screenshot('' @ sq @ ''homepage'' @ sq @ '')'']" exampleAgent] eq shot
  show ?thesis
    by (simp add: exampleActions_def)
qed

text \<open>
  C9. An action object whose \<open>type\<close> is none of navigate, testElement, fillForm,
  screenshot and wait compiles to no statement and no error, with the agent unchanged; the
  suite built from a list that contains it is the suite built from the list without it.
\<close>

theorem unknown_action_dropped:
  assumes "\<forall>t \<in> set actionTypes. getProp ps ''type'' \<noteq> JStr t"
  shows "compileAction ag (JObj ps) = (Inr [], ag)
         \<and> buildTestSuite w ag suiteName (pre @ JObj ps # post) =
             buildTestSuite w ag suiteName (pre @ post)"
proof -
  have drop: "\<And>st. compileAction st (JObj ps) = (Inr [], st)"
    using assms by (rule compileAction_unknown)
  have "compileLoop ag (pre @ JObj ps # post) [] = compileLoop ag (pre @ post) []"
    using drop by (rule compileLoop_drop)
  then show ?thesis
    by (simp add: drop buildTestSuite_def)
qed

text \<open>
  An instance: an action of type \<open>hover\<close> between a navigation and a screenshot.
\<close>

theorem unknown_action_dropped_witness:
  "getProp [(''type'', JStr ''hover''), (''selector'', JStr ''a'')] ''type''
     \<notin> set (map JStr actionTypes)
   \<and> compileAction exampleAgent (JObj [(''type'', JStr ''hover''), (''selector'', JStr ''a'')]) =
       (Inr [], exampleAgent)
   \<and> buildTestSuite exampleWorld exampleAgent ''Example Test''
        ([navigateTo (JStr ''/'')] @ JObj [(''type'', JStr ''hover''), (''selector'', JStr ''a'')]
           # [captureScreenshot (JStr ''homepage'')]) =
      buildTestSuite exampleWorld exampleAgent ''Example Test''
        ([navigateTo (JStr ''/'')] @ [captureScreenshot (JStr ''homepage'')])"
  using unknown_action_dropped [of "[(''type'', JStr ''hover''), (''selector'', JStr ''a'')]"
      exampleAgent exampleWorld "''Example Test''" "[navigateTo (JStr ''/'')]"
      "[captureScreenshot (JStr ''homepage'')]"]
  by (simp add: actionTypes_def getProp_def)


section \<open>File names\<close>

text \<open>
  Replacement leaves a prefix without white space alone and turns a run of white space
  into one underscore; lower-casing sends each capital letter to its small letter, leaves
  every other character alone and produces neither white space nor a capital letter.
\<close>

lemma replaceSpaces_plain: "\<forall>c \<in> set s. \<not> isSpace c \<Longrightarrow> replaceSpaces (s @ t) = s @ replaceSpaces t"
  by (induction s) auto

lemma replaceSpaces_run:
  assumes "ws \<noteq> []" "\<forall>c \<in> set ws. isSpace c" "rest = [] \<or> \<not> isSpace (hd rest)"
  shows "replaceSpaces (ws @ rest) = CHR ''_'' # replaceSpaces rest"
proof -
  from assms(1) obtain c cs where ws: "ws = c # cs" by (cases ws) auto
  have "dropWhile isSpace (cs @ rest) = dropWhile isSpace rest"
    using assms(2) ws by (simp add: dropWhile_append2)
  also have "\<dots> = rest"
    using assms(3) by (cases rest) auto
  finally show ?thesis
    using assms(2) ws by simp
qed

lemma replaceSpaces_no_space: "c \<in> set (replaceSpaces s) \<Longrightarrow> \<not> isSpace c"
  by (induction s rule: replaceSpaces.induct) (auto simp: isSpace_def split: if_splits)

lemma lower_table: "map toLowerChar upperLetters = lowerLetters"
  by code_simp

lemma lower_other: "\<forall>c. c \<in> set upperLetters \<or> toLowerChar c = c"
  by code_simp

lemma lower_clean:
  "\<forall>c. isSpace c \<or> (\<not> isSpace (toLowerChar c) \<and> toLowerChar c \<notin> set upperLetters)"
  by code_simp

lemma stem_clean:
  assumes "c \<in> set (map toLowerChar (replaceSpaces name))"
  shows "\<not> isSpace c \<and> c \<notin> set upperLetters"
proof -
  from assms obtain x where x: "x \<in> set (replaceSpaces name)" and c: "c = toLowerChar x"
    by auto
  from x have "\<not> isSpace x" by (rule replaceSpaces_no_space)
  with lower_clean c show ?thesis by blast
qed

text \<open>
  C8. Whenever the write succeeds, \<open>createTest\<close> returns \<open>./cypress/e2e/\<close> followed by the
  suite name with its white space replaced by underscores, lower-cased, and \<open>.cy.js\<close>;
  the path depends on the suite name alone.  Replacement keeps a name without white space
  and turns each maximal run of white space into one underscore: a name that begins with
  characters that are not white space, followed by a run of white space that ends the name
  or is followed by another character, begins after replacement with these characters and
  one underscore.  Lower-casing sends the capital letters, position by position, to the
  small letters and changes no other character.  The stem has no white space and no capital
  letter.  \<open>Example Test\<close> gives \<open>example_test.cy.js\<close>.
\<close>

theorem derived_file_name:
  "(writable w (''./cypress/e2e/'' @ map toLowerChar (replaceSpaces name) @ ''.cy.js'') \<longrightarrow>
      fst (createTest w ag name stmts) =
        Inr (''./cypress/e2e/'' @ map toLowerChar (replaceSpaces name) @ ''.cy.js''))
   \<and> ((\<forall>c \<in> set s. \<not> isSpace c) \<longrightarrow> replaceSpaces s = s)
   \<and> ((\<forall>c \<in> set s. \<not> isSpace c) \<and> ws \<noteq> [] \<and> (\<forall>c \<in> set ws. isSpace c)
        \<and> (rest = [] \<or> \<not> isSpace (hd rest))
        \<longrightarrow> replaceSpaces (s @ ws @ rest) = s @ ''_'' @ replaceSpaces rest)
   \<and> map toLowerChar upperLetters = lowerLetters
   \<and> (x \<notin> set upperLetters \<longrightarrow> toLowerChar x = x)
   \<and> (\<forall>c \<in> set (map toLowerChar (replaceSpaces name)). \<not> isSpace c \<and> c \<notin> set upperLetters)
   \<and> fst (createTest exampleWorld exampleAgent ''Example Test'' []) =
       Inr ''./cypress/e2e/example_test.cy.js''"
proof (intro conjI impI ballI)
  assume "writable w (''./cypress/e2e/'' @ map toLowerChar (replaceSpaces name) @ ''.cy.js'')"
  then show "fst (createTest w ag name stmts) =
        Inr (''./cypress/e2e/'' @ map toLowerChar (replaceSpaces name) @ ''.cy.js'')"
    by (simp add: createTest_def writeFileSync_def toLowerCase_def Let_def)
next
  assume "\<forall>c \<in> set s. \<not> isSpace c"
  then show "replaceSpaces s = s"
    using replaceSpaces_plain [of s "[]"] by simp
next
  assume a: "(\<forall>c \<in> set s. \<not> isSpace c) \<and> ws \<noteq> [] \<and> (\<forall>c \<in> set ws. isSpace c)
        \<and> (rest = [] \<or> \<not> isSpace (hd rest))"
  then have "replaceSpaces (s @ ws @ rest) = s @ replaceSpaces (ws @ rest)"
    by (simp add: replaceSpaces_plain)
  also have "\<dots> = s @ ''_'' @ replaceSpaces rest"
    using a by (simp add: replaceSpaces_run)
  finally show "replaceSpaces (s @ ws @ rest) = s @ ''_'' @ replaceSpaces rest" .
next
  show "map toLowerChar upperLetters = lowerLetters"
    by (rule lower_table)
next
  assume "x \<notin> set upperLetters"
  with lower_other show "toLowerChar x = x" by blast
next
  fix c assume "c \<in> set (map toLowerChar (replaceSpaces name))"
  then show "\<not> isSpace c" "c \<notin> set upperLetters"
    using stem_clean by blast+
next
  show "fst (createTest exampleWorld exampleAgent ''Example Test'' []) =
       Inr ''./cypress/e2e/example_test.cy.js''"
    by (simp add: createTest_def writeFileSync_def exampleWorld_def Let_def isSpace_def
          example_stem)
qed

text \<open>
  An instance: a capital E with acute accent, a no-break space, a space and \<open>Test\<close>.
\<close>

lemma nbsp_stem:
  "map toLowerChar (replaceSpaces ([CHR 0xC9] @ [CHR 0xA0, CHR '' ''] @ ''Test'')) =
     [CHR 0xE9] @ ''_test''"
  by code_simp

theorem derived_file_name_witness:
  "writable exampleWorld
     (''./cypress/e2e/'' @ map toLowerChar (replaceSpaces ([CHR 0xC9] @ [CHR 0xA0, CHR '' ''] @ ''Test''))
        @ ''.cy.js'')
   \<and> list_all (\<lambda>c. \<not> isSpace c) [CHR 0xC9] \<and> list_all isSpace [CHR 0xA0, CHR '' '']
   \<and> \<not> isSpace (hd ''Test'') \<and> CHR ''x'' \<notin> set upperLetters
   \<and> toLowerChar (CHR ''x'') = CHR ''x''
   \<and> replaceSpaces ([CHR 0xC9] @ [CHR 0xA0, CHR '' ''] @ ''Test'') = [CHR 0xC9] @ ''_Test''
   \<and> fst (createTest exampleWorld exampleAgent ([CHR 0xC9] @ [CHR 0xA0, CHR '' ''] @ ''Test'') []) =
       Inr (''./cypress/e2e/'' @ [CHR 0xE9] @ ''_test.cy.js'')"
  using derived_file_name [where w = exampleWorld and ag = exampleAgent and stmts = "[]"
      and name = "[CHR 0xC9] @ [CHR 0xA0, CHR '' ''] @ ''Test''"
      and s = "[CHR 0xC9]" and ws = "[CHR 0xA0, CHR '' '']" and rest = "''Test''"
      and x = "CHR ''x''"] nbsp_stem
  by (simp add: isSpace_def exampleWorld_def upperLetters_def)


section \<open>Pass rate\<close>

text \<open>
  With the guard of the script-generating agent a total of zero is reported as \<open>0\<close>, and
  the rounding happens on the double: 23 of 40 is reported as 57.
\<close>

lemma generateReport_zero_total:
  assumes "testResults ag = RunResults r" "has_runs r" "orZero (totalTests r) = 0"
  shows "generateReport ag = Some (passRateLine ''0'')"
  using assms
  by (simp add: generateReport_def showInt_def showNat.simps digit_char_def)

lemma pass_rate_rounds_the_double:
  "numberToString (mathRound (times_num (divide_num 23 40) 100)) = ''57''"
  by code_simp

text \<open>
  C1. The report of the direct-driver agent has no such guard: with an empty list of
  results it divides zero by zero and its summary reads \<open>Pass Rate: NaN%\<close>, where the
  specification requires \<open>0\<close>.
\<close>

theorem pw_pass_rate_of_no_results:
  "pw_generateReport (ag\<lparr>pw_testResults := []\<rparr>) = passRateLine ''NaN''"
  by (simp add: pw_generateReport_def divide_num_def)


section \<open>Running an element test on the page\<close>

text \<open>
  An unrecognised kind is thrown inside the \<open>try\<close> as well, so the direct driver records
  it as a failed result.  Each throw of a page operation ends the \<open>try\<close> block with its
  message; the \<open>catch\<close> pushes the failed record and then logs, and every call pushes
  exactly one record.
\<close>

lemma pw_unknown_kind_recorded:
  assumes "waitForSelector pg selector = None"
    and "testType \<notin> set (map JStr [''exists'', ''text'', ''attribute'', ''clickable''])"
    and "toString testType = Inr s"
  shows "tryBlock pg selector testType expectedValue = Inl (''Unknown test type: '' @ s)"
  using assms by (auto simp: tryBlock_def)

lemma tryBlock_throws:
  assumes "waitForSelector pg selector = Some message
        \<or> waitForSelector pg selector = None \<and> testType = JStr ''exists''
            \<and> isVisible pg selector = Inl message
        \<or> waitForSelector pg selector = None \<and> testType = JStr ''text''
            \<and> textContent pg selector = Inl message
        \<or> waitForSelector pg selector = None \<and> testType = JStr ''attribute''
            \<and> expectedValue = JStr s
            \<and> getAttribute pg selector (elem (split_on CHR ''='' s) 0) = Inl message
        \<or> waitForSelector pg selector = None \<and> testType = JStr ''clickable''
            \<and> click pg selector = Some message"
  shows "tryBlock pg selector testType expectedValue = Inl message"
  using assms
proof (elim disjE conjE)
  assume "waitForSelector pg selector = Some message"
  then show ?thesis by (simp add: tryBlock_def)
next
  assume "waitForSelector pg selector = None" "testType = JStr ''exists''"
    "isVisible pg selector = Inl message"
  then show ?thesis by (simp add: tryBlock_def)
next
  assume "waitForSelector pg selector = None" "testType = JStr ''text''"
    "textContent pg selector = Inl message"
  then show ?thesis by (simp add: tryBlock_def)
next
  assume "waitForSelector pg selector = None" "testType = JStr ''attribute''"
    "expectedValue = JStr s"
    "getAttribute pg selector (elem (split_on CHR ''='' s) 0) = Inl message"
  then show ?thesis by (simp add: tryBlock_def Let_def)
next
  assume "waitForSelector pg selector = None" "testType = JStr ''clickable''"
    "click pg selector = Some message"
  then show ?thesis by (simp add: tryBlock_def)
qed

lemma pw_testElement_caught:
  assumes "tryBlock pg selector testType expectedValue = Inl message"
  shows "snd (pw_testElement pg now ag selector testType expectedValue) =
           recorded ag (failedEntry now selector testType expectedValue message)"
    and "toString selector = Inr shown \<Longrightarrow>
           fst (pw_testElement pg now ag selector testType expectedValue) = Inr False"
    and "toString selector = Inl e \<Longrightarrow>
           fst (pw_testElement pg now ag selector testType expectedValue) = Inl e"
  using assms
  by (auto simp: pw_testElement_def recorded_def failedEntry_def Let_def split: sum.splits)

lemma pw_testElement_one_entry:
  "\<exists>entry. snd (pw_testElement pg now ag selector testType expectedValue) = recorded ag entry
     \<and> r_selector entry = selector \<and> r_testType entry = testType
     \<and> r_expected entry = expectedValue
     \<and> (fst (pw_testElement pg now ag selector testType expectedValue) = Inr (r_passed entry)
          \<or> r_passed entry = False
             \<and> fst (pw_testElement pg now ag selector testType expectedValue) =
                 Inl (TypeError conversionMessage))"
proof (cases "tryBlock pg selector testType expectedValue")
  case (Inl message)
  let ?entry = "failedEntry now selector testType expectedValue message"
  have fields: "r_selector ?entry = selector" "r_testType ?entry = testType"
    "r_expected ?entry = expectedValue" "r_passed ?entry = False"
    by (simp_all add: failedEntry_def)
  have state: "snd (pw_testElement pg now ag selector testType expectedValue) = recorded ag ?entry"
    using Inl by (rule pw_testElement_caught(1))
  have "fst (pw_testElement pg now ag selector testType expectedValue) = Inr False
        \<or> fst (pw_testElement pg now ag selector testType expectedValue) =
            Inl (TypeError conversionMessage)"
  proof (cases "toString selector")
    case (Inl e)
    then have "e = TypeError conversionMessage" by (rule toString_error)
    with Inl \<open>tryBlock pg selector testType expectedValue = Inl message\<close> show ?thesis
      by (simp add: pw_testElement_caught(3))
  next
    case (Inr shown)
    with \<open>tryBlock pg selector testType expectedValue = Inl message\<close> show ?thesis
      by (simp add: pw_testElement_caught(2))
  qed
  with state fields show ?thesis by metis
next
  case (Inr ok)
  obtain result actualValue where ok: "ok = (result, actualValue)" by (cases ok)
  let ?entry = "\<lparr>r_selector = selector, r_testType = testType, r_expected = expectedValue,
     r_actual = Some actualValue, r_error = None, r_passed = result, r_timestamp = now\<rparr>"
  have "snd (pw_testElement pg now ag selector testType expectedValue) = recorded ag ?entry"
    "fst (pw_testElement pg now ag selector testType expectedValue) = Inr (r_passed ?entry)"
    using Inr ok by (simp_all add: pw_testElement_def recorded_def)
  then show ?thesis
    by (intro exI [of _ "?entry"]) simp
qed

text \<open>
  C6 as stated does not hold for a selector that cannot be converted to a string: the
  failed record is pushed, but the template of the log line in the \<open>catch\<close> throws and the
  call propagates that TypeError instead of returning false.
\<close>

theorem testElement_propagates_counterexample:
  "waitForSelector missingPage unprintable = Some ''Timeout 5000ms exceeded.''
   \<and> pw_testElement missingPage ''2024-01-01T00:00:00.000Z'' examplePwAgent unprintable
        (JStr ''exists'') JUndefined =
       (Inl (TypeError conversionMessage),
        recorded examplePwAgent
          (failedEntry ''2024-01-01T00:00:00.000Z'' unprintable (JStr ''exists'') JUndefined
             ''Timeout 5000ms exceeded.''))"
  by (simp add: pw_testElement_def tryBlock_def missingPage_def unprintable_def recorded_def
        failedEntry_def Let_def)

text \<open>
  C6. (amended) Every call of the direct-driver \<open>testElement\<close> appends exactly one record,
  for the selector, kind and expected value of the call; it returns the \<open>passed\<close> field of
  that record, or, for a failed record, propagates the TypeError of the log line.  When a
  page operation throws (\<open>waitForSelector\<close>, or after it \<open>isVisible\<close>, \<open>textContent\<close>,
  \<open>getAttribute\<close> or \<open>click\<close> for the kind that calls it), the record is the failed
  one carrying the message; the call then returns false whenever the selector can be
  converted to a string, as every string can, and otherwise propagates the TypeError of
  the conversion.
\<close>

theorem testElement_records_failure:
  "(\<exists>entry. snd (pw_testElement pg now ag selector testType expectedValue) = recorded ag entry
       \<and> r_selector entry = selector \<and> r_testType entry = testType
       \<and> r_expected entry = expectedValue
       \<and> (fst (pw_testElement pg now ag selector testType expectedValue) = Inr (r_passed entry)
            \<or> r_passed entry = False
               \<and> fst (pw_testElement pg now ag selector testType expectedValue) =
                   Inl (TypeError conversionMessage)))
   \<and> (waitForSelector pg selector = Some message
        \<or> waitForSelector pg selector = None \<and> testType = JStr ''exists''
            \<and> isVisible pg selector = Inl message
        \<or> waitForSelector pg selector = None \<and> testType = JStr ''text''
            \<and> textContent pg selector = Inl message
        \<or> waitForSelector pg selector = None \<and> testType = JStr ''attribute''
            \<and> expectedValue = JStr s
            \<and> getAttribute pg selector (elem (split_on CHR ''='' s) 0) = Inl message
        \<or> waitForSelector pg selector = None \<and> testType = JStr ''clickable''
            \<and> click pg selector = Some message
       \<longrightarrow>
         snd (pw_testElement pg now ag selector testType expectedValue) =
           recorded ag (failedEntry now selector testType expectedValue message)
         \<and> (toString selector = Inr shown \<longrightarrow>
              fst (pw_testElement pg now ag selector testType expectedValue) = Inr False)
         \<and> (toString selector = Inl e \<longrightarrow>
              fst (pw_testElement pg now ag selector testType expectedValue) = Inl e))"
proof (intro conjI impI)
  show "\<exists>entry. snd (pw_testElement pg now ag selector testType expectedValue) = recorded ag entry
       \<and> r_selector entry = selector \<and> r_testType entry = testType
       \<and> r_expected entry = expectedValue
       \<and> (fst (pw_testElement pg now ag selector testType expectedValue) = Inr (r_passed entry)
            \<or> r_passed entry = False
               \<and> fst (pw_testElement pg now ag selector testType expectedValue) =
                   Inl (TypeError conversionMessage))"
    by (rule pw_testElement_one_entry)
next
  assume throws: "waitForSelector pg selector = Some message
        \<or> waitForSelector pg selector = None \<and> testType = JStr ''exists''
            \<and> isVisible pg selector = Inl message
        \<or> waitForSelector pg selector = None \<and> testType = JStr ''text''
            \<and> textContent pg selector = Inl message
        \<or> waitForSelector pg selector = None \<and> testType = JStr ''attribute''
            \<and> expectedValue = JStr s
            \<and> getAttribute pg selector (elem (split_on CHR ''='' s) 0) = Inl message
        \<or> waitForSelector pg selector = None \<and> testType = JStr ''clickable''
            \<and> click pg selector = Some message"
  then have t: "tryBlock pg selector testType expectedValue = Inl message"
    by (rule tryBlock_throws)
  from t show "snd (pw_testElement pg now ag selector testType expectedValue) =
           recorded ag (failedEntry now selector testType expectedValue message)"
    by (rule pw_testElement_caught(1))
  { assume "toString selector = Inr shown"
    with t show "fst (pw_testElement pg now ag selector testType expectedValue) = Inr False"
      by (simp add: pw_testElement_caught(2)) }
  { assume "toString selector = Inl e"
    with t show "fst (pw_testElement pg now ag selector testType expectedValue) = Inl e"
      by (simp add: pw_testElement_caught(3)) }
qed

text \<open>
  Instances: a page on which waiting for the selector times out, and a page on which each
  of the four other operations throws.
\<close>

theorem testElement_records_failure_witness:
  "pw_testElement missingPage ''2024-01-01T00:00:00.000Z'' examplePwAgent (JStr ''h1'')
        (JStr ''exists'') (JUndefined) =
       (Inr False, recorded examplePwAgent
          (failedEntry ''2024-01-01T00:00:00.000Z'' (JStr ''h1'') (JStr ''exists'') (JUndefined) ''Timeout 5000ms exceeded.''))
   \<and> pw_testElement brokenPage ''2024-01-01T00:00:00.000Z'' examplePwAgent (JStr ''h1'')
        (JStr ''exists'') (JUndefined) =
       (Inr False, recorded examplePwAgent
          (failedEntry ''2024-01-01T00:00:00.000Z'' (JStr ''h1'') (JStr ''exists'') (JUndefined) ''isVisible: Target closed''))
   \<and> pw_testElement brokenPage ''2024-01-01T00:00:00.000Z'' examplePwAgent (JStr ''h1'')
        (JStr ''text'') (JStr ''Hello'') =
       (Inr False, recorded examplePwAgent
          (failedEntry ''2024-01-01T00:00:00.000Z'' (JStr ''h1'') (JStr ''text'') (JStr ''Hello'') ''textContent: Target closed''))
   \<and> pw_testElement brokenPage ''2024-01-01T00:00:00.000Z'' examplePwAgent (JStr ''h1'')
        (JStr ''attribute'') (JStr ''href=/'') =
       (Inr False, recorded examplePwAgent
          (failedEntry ''2024-01-01T00:00:00.000Z'' (JStr ''h1'') (JStr ''attribute'') (JStr ''href=/'') ''getAttribute: Target closed''))
   \<and> pw_testElement brokenPage ''2024-01-01T00:00:00.000Z'' examplePwAgent (JStr ''h1'')
        (JStr ''clickable'') (JUndefined) =
       (Inr False, recorded examplePwAgent
          (failedEntry ''2024-01-01T00:00:00.000Z'' (JStr ''h1'') (JStr ''clickable'') (JUndefined) ''click: Target closed''))"
  using testElement_records_failure [where pg = missingPage and now = "''2024-01-01T00:00:00.000Z''"
      and ag = examplePwAgent and selector = "JStr ''h1''" and testType = "JStr ''exists''"
      and expectedValue = "JUndefined" and s = "[]" and message = "''Timeout 5000ms exceeded.''"
      and shown = "''h1''" and e = "TypeError conversionMessage"]
    testElement_records_failure [where pg = brokenPage and now = "''2024-01-01T00:00:00.000Z''"
      and ag = examplePwAgent and selector = "JStr ''h1''" and testType = "JStr ''exists''"
      and expectedValue = "JUndefined" and s = "[]" and message = "''isVisible: Target closed''"
      and shown = "''h1''" and e = "TypeError conversionMessage"]
    testElement_records_failure [where pg = brokenPage and now = "''2024-01-01T00:00:00.000Z''"
      and ag = examplePwAgent and selector = "JStr ''h1''" and testType = "JStr ''text''"
      and expectedValue = "JStr ''Hello''" and s = "[]" and message = "''textContent: Target closed''"
      and shown = "''h1''" and e = "TypeError conversionMessage"]
    testElement_records_failure [where pg = brokenPage and now = "''2024-01-01T00:00:00.000Z''"
      and ag = examplePwAgent and selector = "JStr ''h1''" and testType = "JStr ''attribute''"
      and expectedValue = "JStr ''href=/''" and s = "''href=/''" and message = "''getAttribute: Target closed''"
      and shown = "''h1''" and e = "TypeError conversionMessage"]
    testElement_records_failure [where pg = brokenPage and now = "''2024-01-01T00:00:00.000Z''"
      and ag = examplePwAgent and selector = "JStr ''h1''" and testType = "JStr ''clickable''"
      and expectedValue = "JUndefined" and s = "[]" and message = "''click: Target closed''"
      and shown = "''h1''" and e = "TypeError conversionMessage"]
  by (simp add: missingPage_def brokenPage_def prod_eq_iff)


section \<open>Grouping screenshots\<close>

text \<open>
  The example of the specification is grouped as stated, a name with fewer than two
  segments is skipped silently, and when no route or viewport segment is a key of
  \<open>Object.prototype\<close> every file of two segments or more ends in its group, in order.
\<close>

lemma grouping_example:
  "cta_generateReport [''home-desktop-a.png'', ''home-mobile-b.png'', ''bad.png''] =
     Grouped [(''home'', [(''desktop'', [''home-desktop-a.png'']),
                          (''mobile'', [''home-mobile-b.png''])])]"
  by (simp add: cta_generateReport_def endsWith_def basename_def lastSegment_def addFile_def
        objectPrototypeKeys_def)

lemma short_name_skipped:
  "length (split_on CHR ''-'' (basename file ''.png'')) < 2 \<Longrightarrow>
   groupFiles reportData (file # rest) = groupFiles reportData rest"
  by (simp add: Let_def)

lemma map_of_setOwn: "map_of (setOwn ps k v) = (map_of ps)(k \<mapsto> v)"
  by (induction ps) auto

lemma groupOf_setOwn_new:
  "groupOf (setOwn rd route inner) r v =
     (if r = route then (case map_of inner v of None \<Rightarrow> [] | Some shots \<Rightarrow> shots)
      else groupOf rd r v)"
  by (simp add: groupOf_def map_of_setOwn)

lemma addFile_safe:
  assumes "route \<notin> set objectPrototypeKeys" "viewport \<notin> set objectPrototypeKeys"
  shows "\<exists>rd'. addFile rd route viewport file = Grouped rd'
           \<and> (\<forall>r v. groupOf rd' r v =
                 (if r = route \<and> v = viewport then groupOf rd route viewport @ [file]
                  else groupOf rd r v))"
proof (cases "map_of rd route")
  case None
  with assms have "addFile rd route viewport file = Grouped (setOwn rd route [(viewport, [file])])"
    by (simp add: addFile_def)
  moreover have "\<forall>r v. groupOf (setOwn rd route [(viewport, [file])]) r v =
                 (if r = route \<and> v = viewport then groupOf rd route viewport @ [file]
                  else groupOf rd r v)"
    using None by (simp add: groupOf_setOwn_new) (simp add: groupOf_def)
  ultimately show ?thesis by blast
next
  case (Some inner)
  show ?thesis
  proof (cases "map_of inner viewport")
    case None
    with Some assms have
      "addFile rd route viewport file = Grouped (setOwn rd route (setOwn inner viewport [file]))"
      by (simp add: addFile_def)
    moreover have "\<forall>r v. groupOf (setOwn rd route (setOwn inner viewport [file])) r v =
                 (if r = route \<and> v = viewport then groupOf rd route viewport @ [file]
                  else groupOf rd r v)"
      using Some None by (simp add: groupOf_setOwn_new map_of_setOwn) (simp add: groupOf_def)
    ultimately show ?thesis by blast
  next
    case (Some shots)
    with \<open>map_of rd route = Some inner\<close> have
      "addFile rd route viewport file =
         Grouped (setOwn rd route (setOwn inner viewport (shots @ [file])))"
      by (simp add: addFile_def)
    moreover have "\<forall>r v. groupOf (setOwn rd route (setOwn inner viewport (shots @ [file]))) r v =
                 (if r = route \<and> v = viewport then groupOf rd route viewport @ [file]
                  else groupOf rd r v)"
      using Some \<open>map_of rd route = Some inner\<close>
      by (simp add: groupOf_setOwn_new map_of_setOwn) (simp add: groupOf_def)
    ultimately show ?thesis by blast
  qed
qed

lemma groupFiles_safe:
  assumes "\<forall>f \<in> set fs. \<forall>r v. routeViewport f = Some (r, v) \<longrightarrow>
             r \<notin> set objectPrototypeKeys \<and> v \<notin> set objectPrototypeKeys"
  shows "\<exists>rd'. groupFiles rd fs = Grouped rd'
           \<and> (\<forall>r v. groupOf rd' r v =
                 groupOf rd r v @ filter (\<lambda>f. routeViewport f = Some (r, v)) fs)"
  using assms
proof (induction fs arbitrary: rd)
  case Nil
  then show ?case by simp
next
  case (Cons f fs)
  show ?case
  proof (cases "routeViewport f")
    case None
    then have skip: "groupFiles rd (f # fs) = groupFiles rd fs"
      by (simp add: routeViewport_def Let_def split: if_splits)
    from Cons.IH [of rd] Cons.prems obtain rd' where
      "groupFiles rd fs = Grouped rd'"
      "\<forall>r v. groupOf rd' r v = groupOf rd r v @ filter (\<lambda>f. routeViewport f = Some (r, v)) fs"
      by auto
    with skip None show ?thesis by simp
  next
    case (Some rv)
    obtain route viewport where rv: "rv = (route, viewport)" by (cases rv)
    with Some Cons.prems have safe: "route \<notin> set objectPrototypeKeys"
      "viewport \<notin> set objectPrototypeKeys" by auto
    from addFile_safe [OF safe, of rd f] obtain rd1 where
      add: "addFile rd route viewport f = Grouped rd1" and
      g1: "\<forall>r v. groupOf rd1 r v =
             (if r = route \<and> v = viewport then groupOf rd route viewport @ [f]
              else groupOf rd r v)"
      by blast
    from Some rv add have step: "groupFiles rd (f # fs) = groupFiles rd1 fs"
      by (simp add: routeViewport_def Let_def split: if_splits)
    from Cons.IH [of rd1] Cons.prems obtain rd' where
      run: "groupFiles rd1 fs = Grouped rd'" and
      g2: "\<forall>r v. groupOf rd' r v = groupOf rd1 r v @ filter (\<lambda>f. routeViewport f = Some (r, v)) fs"
      by auto
    have "\<forall>r v. groupOf rd' r v =
            groupOf rd r v @ filter (\<lambda>f. routeViewport f = Some (r, v)) (f # fs)"
      using g1 g2 Some rv by auto
    with step run show ?thesis by simp
  qed
qed

text \<open>
  C4. A file whose viewport segment is a key of \<open>Object.prototype\<close> is not placed in a
  group: for \<open>home-constructor-a.png\<close> the test \<open>!reportData[route][viewport]\<close> finds the
  inherited \<open>constructor\<close>, no array is created, and the call of \<open>push\<close> throws.
\<close>

theorem inherited_viewport_name_raises:
  "cta_generateReport [''home-constructor-a.png''] =
     Raised (TypeError ''reportData[route][viewport].push is not a function'')"
  by (simp add: cta_generateReport_def endsWith_def basename_def lastSegment_def addFile_def
        objectPrototypeKeys_def)

end
